theory Spec2Isabelle
  imports Main "HOL-Library.Word"
begin

unbundle bit_operations_syntax

section \<open>Data: bytes, strings, errors\<close>

text \<open>
  A Python \<open>bytes\<close> object is a sequence of integers in \<open>range(256)\<close>; a Python \<open>str\<close>
  is a sequence of Unicode code points and \<open>len\<close> counts code points. A code point is a
  natural number, so every string \<open>sys.argv\<close> can hold is covered.
\<close>

type_synonym byte = "8 word"
type_synonym bytes = "byte list"
type_synonym str = "nat list"

definition str_of :: "string \<Rightarrow> str" where
  "str_of s = map of_char s"

text \<open>
  The two \<open>ValueError\<close>s of \<open>sign_firmware\<close> are told apart by their message; the first
  carries \<open>len(key_hex)\<close>. \<open>IOError\<close> is the \<open>OSError\<close> of \<open>open\<close>, with the path.
  \<open>EntropyUnavailable\<close> is \<open>os.urandom\<close> failing. The last two belong to the verifier.
\<close>

datatype error =
    InvalidKeyLength nat
  | InvalidKeyEncoding
  | IOError str
  | EntropyUnavailable
  | EnvelopeTooShort
  | SignatureInvalid

section \<open>\<open>bytes.fromhex\<close> and \<open>bytes.hex\<close>\<close>

text \<open>
  CPython's \<open>bytes.fromhex\<close>: a string with a non-ASCII code point is refused; otherwise
  the string is read left to right, a run of ASCII whitespace is skipped wherever a byte
  may start, and each byte is two digits with no whitespace between them.
  \<open>Py_ISSPACE\<close> holds of tab, line feed, vertical tab, form feed, carriage return and
  space (Python 3.7 and later; before that the space alone was skipped);
  \<open>digit_value\<close> is the table \<open>_PyLong_DigitValue\<close> (37 marks "no digit").
\<close>

definition Py_ISSPACE :: "nat \<Rightarrow> bool" where
  "Py_ISSPACE c \<longleftrightarrow> c = 9 \<or> c = 10 \<or> c = 11 \<or> c = 12 \<or> c = 13 \<or> c = 32"

definition digit_value :: "nat \<Rightarrow> nat" where
  "digit_value c =
     (if 48 \<le> c \<and> c \<le> 57 then c - 48
      else if 97 \<le> c \<and> c \<le> 122 then c - 87
      else if 65 \<le> c \<and> c \<le> 90 then c - 55
      else 37)"

fun fromhex_pairs :: "str \<Rightarrow> bytes option" where
  "fromhex_pairs [] = Some []"
| "fromhex_pairs [c] = (if Py_ISSPACE c then Some [] else None)"
| "fromhex_pairs (c # d # rest) =
     (if Py_ISSPACE c then fromhex_pairs (d # rest)
      else if 16 \<le> digit_value c then None
      else if 16 \<le> digit_value d then None
      else map_option ((#) (of_nat (16 * digit_value c + digit_value d)))
             (fromhex_pairs rest))"

definition bytes_fromhex :: "str \<Rightarrow> bytes option" where
  "bytes_fromhex s = (if list_ex (\<lambda>c. 128 \<le> c) s then None else fromhex_pairs s)"

text \<open>\<open>bytes.hex\<close>: two lowercase digits per byte, high nibble first.\<close>

definition hex_digit :: "nat \<Rightarrow> nat" where
  "hex_digit n = (if n < 10 then 48 + n else 87 + n)"

definition bytes_hex :: "bytes \<Rightarrow> str" where
  "bytes_hex bs = concat (map (\<lambda>b. [hex_digit (unat b div 16), hex_digit (unat b mod 16)]) bs)"

section \<open>\<open>hashlib.sha256\<close> and \<open>hmac.new\<close>\<close>

text \<open>
  SHA-256 as FIPS 180-4 defines it. A 32-bit word is an \<open>int\<close> in \<open>[0, 2^32)\<close>; every
  addition is reduced modulo \<open>2^32\<close> and a rotation keeps the low 32 bits. The round
  constants \<open>K256\<close> and the initial hash value \<open>H0\<close> are the standard's, in decimal:
  \<open>K256\<close> starts with \<open>0x428a2f98\<close> and \<open>H0\<close> with \<open>0x6a09e667\<close>.
\<close>

definition add32 :: "int \<Rightarrow> int \<Rightarrow> int" where
  "add32 a b = (a + b) mod 4294967296"

definition rotr :: "nat \<Rightarrow> int \<Rightarrow> int" where
  "rotr n x = drop_bit n x OR take_bit 32 (push_bit (32 - n) x)"

definition Ch :: "int \<Rightarrow> int \<Rightarrow> int \<Rightarrow> int" where
  "Ch x y z = (x AND y) XOR (NOT x AND z)"

definition Maj :: "int \<Rightarrow> int \<Rightarrow> int \<Rightarrow> int" where
  "Maj x y z = (x AND y) XOR (x AND z) XOR (y AND z)"

definition bsig0 :: "int \<Rightarrow> int" where
  "bsig0 x = rotr 2 x XOR rotr 13 x XOR rotr 22 x"

definition bsig1 :: "int \<Rightarrow> int" where
  "bsig1 x = rotr 6 x XOR rotr 11 x XOR rotr 25 x"

definition ssig0 :: "int \<Rightarrow> int" where
  "ssig0 x = rotr 7 x XOR rotr 18 x XOR drop_bit 3 x"

definition ssig1 :: "int \<Rightarrow> int" where
  "ssig1 x = rotr 17 x XOR rotr 19 x XOR drop_bit 10 x"

definition K256 :: "int list" where
  "K256 =
    [1116352408, 1899447441, 3049323471, 3921009573, 961987163, 1508970993,
     2453635748, 2870763221, 3624381080, 310598401, 607225278, 1426881987,
     1925078388, 2162078206, 2614888103, 3248222580, 3835390401, 4022224774,
     264347078, 604807628, 770255983, 1249150122, 1555081692, 1996064986,
     2554220882, 2821834349, 2952996808, 3210313671, 3336571891, 3584528711,
     113926993, 338241895, 666307205, 773529912, 1294757372, 1396182291,
     1695183700, 1986661051, 2177026350, 2456956037, 2730485921, 2820302411,
     3259730800, 3345764771, 3516065817, 3600352804, 4094571909, 275423344,
     430227734, 506948616, 659060556, 883997877, 958139571, 1322822218,
     1537002063, 1747873779, 1955562222, 2024104815, 2227730452, 2361852424,
     2428436474, 2756734187, 3204031479, 3329325298]"

definition H0 :: "int list" where
  "H0 = [1779033703, 3144134277, 1013904242, 2773480762,
         1359893119, 2600822924, 528734635, 1541459225]"

text \<open>Big-endian packing of a block into words, and of a word into four bytes.\<close>

fun be32 :: "bytes \<Rightarrow> int list" where
  "be32 (a # b # c # d # rest) =
     (push_bit 24 (uint a) OR push_bit 16 (uint b) OR push_bit 8 (uint c) OR uint d) # be32 rest"
| "be32 _ = []"

definition bytes_of_u32 :: "int \<Rightarrow> bytes" where
  "bytes_of_u32 w =
     [word_of_int (drop_bit 24 w mod 256), word_of_int (drop_bit 16 w mod 256),
      word_of_int (drop_bit 8 w mod 256), word_of_int (w mod 256)]"

text \<open>The message schedule: words 16 to 63 are appended one at a time.\<close>

definition schedule_step :: "int list \<Rightarrow> nat \<Rightarrow> int list" where
  "schedule_step ws t =
     ws @ [add32 (add32 (add32 (ssig1 (ws ! (t - 2))) (ws ! (t - 7)))
                        (ssig0 (ws ! (t - 15)))) (ws ! (t - 16))]"

definition schedule :: "int list \<Rightarrow> int list" where
  "schedule ws = foldl schedule_step ws [16..<64]"

type_synonym sha_state = "int \<times> int \<times> int \<times> int \<times> int \<times> int \<times> int \<times> int"

fun sha_round :: "sha_state \<Rightarrow> int \<times> int \<Rightarrow> sha_state" where
  "sha_round (a, b, c, d, e, f, g, h) (k, w) =
     (let t1 = add32 (add32 (add32 (add32 h (bsig1 e)) (Ch e f g)) k) w;
          t2 = add32 (bsig0 a) (Maj a b c)
      in (add32 t1 t2, a, b, c, add32 d t1, e, f, g))"

fun compress :: "int list \<Rightarrow> bytes \<Rightarrow> int list" where
  "compress [h0, h1, h2, h3, h4, h5, h6, h7] block =
     (case foldl sha_round (h0, h1, h2, h3, h4, h5, h6, h7) (zip K256 (schedule (be32 block))) of
        (a, b, c, d, e, f, g, h) \<Rightarrow>
          [add32 h0 a, add32 h1 b, add32 h2 c, add32 h3 d,
           add32 h4 e, add32 h5 f, add32 h6 g, add32 h7 h])"
| "compress hs block = hs"

text \<open>
  Padding: the byte \<open>0x80\<close>, zeros up to 56 modulo 64, and the bit length as eight
  big-endian bytes. The padded message is cut into 64-byte blocks.
\<close>

definition be64 :: "nat \<Rightarrow> bytes" where
  "be64 n =
     [word_of_int (drop_bit 56 (int n) mod 256), word_of_int (drop_bit 48 (int n) mod 256),
      word_of_int (drop_bit 40 (int n) mod 256), word_of_int (drop_bit 32 (int n) mod 256),
      word_of_int (drop_bit 24 (int n) mod 256), word_of_int (drop_bit 16 (int n) mod 256),
      word_of_int (drop_bit 8 (int n) mod 256), word_of_int (int n mod 256)]"

definition pad :: "bytes \<Rightarrow> bytes" where
  "pad m = m @ [0x80] @ replicate ((119 - length m mod 64) mod 64) 0 @ be64 (8 * length m)"

function blocks :: "bytes \<Rightarrow> bytes list" where
  "blocks bs = (if length bs < 64 then [] else take 64 bs # blocks (drop 64 bs))"
  by pat_completeness auto
termination
  by (relation "measure length") auto

declare blocks.simps [simp del]

definition sha256 :: "bytes \<Rightarrow> bytes" where
  "sha256 m = concat (map bytes_of_u32 (foldl compress H0 (blocks (pad m))))"

text \<open>
  \<open>hmac.new(key, msg, hashlib.sha256).digest()\<close>: a key longer than the block size of 64
  is hashed first, the key is filled with zero bytes up to 64, and the digest is
  \<open>H((k0 xor opad) || H((k0 xor ipad) || msg))\<close>.
\<close>

definition hmac_sha256 :: "bytes \<Rightarrow> bytes \<Rightarrow> bytes" where
  "hmac_sha256 key msg =
     (let k = (if 64 < length key then sha256 key else key);
          k0 = k @ replicate (64 - length k) 0
      in sha256 (map (\<lambda>b. b XOR 0x5c) k0 @ sha256 (map (\<lambda>b. b XOR 0x36) k0 @ msg)))"

section \<open>\<open>os.path.splitext\<close>\<close>

text \<open>
  \<open>posixpath.splitext\<close>: the extension starts at the last dot after the last slash,
  unless every character between that slash and that dot is a dot.
  \<open>rfind\<close> is the index of the last occurrence, or \<open>-1\<close>.
\<close>

fun rfind :: "nat \<Rightarrow> str \<Rightarrow> int" where
  "rfind c [] = -1"
| "rfind c (x # xs) =
     (let r = rfind c xs in if 0 \<le> r then r + 1 else if x = c then 0 else -1)"

definition splitext :: "str \<Rightarrow> str \<times> str" where
  "splitext p =
     (let sepIndex = rfind 47 p; dotIndex = rfind 46 p in
      if sepIndex < dotIndex
         \<and> list_ex (\<lambda>c. c \<noteq> 46) (take (nat (dotIndex - (sepIndex + 1))) (drop (nat (sepIndex + 1)) p))
      then (take (nat dotIndex) p, drop (nat dotIndex) p)
      else (p, []))"

section \<open>The world: files, console, entropy\<close>

text \<open>
  The effects of the script are reads and writes of files, lines on the console and bytes
  drawn from \<open>os.urandom\<close>. The world holds the file contents, which paths can be opened
  for writing, the operating system's random byte stream with the number of bytes drawn so
  far, and the trace of effects in the order they happened. A console line is recorded by
  its arguments, not by its formatted text.
\<close>

datatype event =
    Read_file str
  | Print_size nat
  | Print_signature str
  | Open_write str
  | Write_file str bytes
  | Print_signed str nat

record world =
  files :: "str \<Rightarrow> bytes option"
  writable :: "str \<Rightarrow> bool"
  entropy_ok :: bool
  entropy :: "nat \<Rightarrow> byte"
  drawn :: nat
  trace :: "event list"

definition emit :: "event \<Rightarrow> world \<Rightarrow> world" where
  "emit e w = w\<lparr>trace := trace w @ [e]\<rparr>"

text \<open>\<open>with open(path, 'rb') as f: f.read()\<close>\<close>

definition read_file :: "str \<Rightarrow> world \<Rightarrow> (error + bytes) \<times> world" where
  "read_file path w =
     (case files w path of
        None \<Rightarrow> (Inl (IOError path), w)
      | Some content \<Rightarrow> (Inr content, emit (Read_file path) w))"

text \<open>\<open>open(path, 'wb')\<close> truncates the file; \<open>f.write(data)\<close> appends to it.\<close>

definition open_wb :: "str \<Rightarrow> world \<Rightarrow> (error + unit) \<times> world" where
  "open_wb path w =
     (if writable w path
      then (Inr (), emit (Open_write path) (w\<lparr>files := (files w)(path \<mapsto> [])\<rparr>))
      else (Inl (IOError path), w))"

definition write_file :: "str \<Rightarrow> bytes \<Rightarrow> world \<Rightarrow> world" where
  "write_file path data w =
     emit (Write_file path data)
       (w\<lparr>files := (files w)(path \<mapsto> (case files w path of None \<Rightarrow> [] | Some old \<Rightarrow> old) @ data)\<rparr>)"

text \<open>\<open>os.urandom(n)\<close>: the next \<open>n\<close> bytes of the system's source, or an error.\<close>

definition os_urandom :: "nat \<Rightarrow> world \<Rightarrow> (error + bytes) \<times> world" where
  "os_urandom n w =
     (if entropy_ok w
      then (Inr (map (entropy w) [drawn w..<drawn w + n]), w\<lparr>drawn := drawn w + n\<rparr>)
      else (Inl EntropyUnavailable, w))"

section \<open>The script: \<open>sign_firmware\<close> and \<open>generate_key\<close>\<close>

text \<open>Lines 45 to 47: the output path, when none is given.\<close>

definition resolve_output :: "str \<Rightarrow> str option \<Rightarrow> str" where
  "resolve_output input_path output_path =
     (case output_path of
        None \<Rightarrow> (case splitext input_path of (base, ext) \<Rightarrow> base @ str_of ''_signed'' @ ext)
      | Some p \<Rightarrow> p)"

text \<open>
  Lines 24 to 57. The key string is validated first: its length, then its decoding.
  Then the firmware is read, the tag is computed and printed, the output file is opened,
  the firmware and the tag are written to it, and the output path is returned. A raise
  ends the run with the world as it is at that point.
\<close>

definition sign_firmware :: "world \<Rightarrow> str \<Rightarrow> str \<Rightarrow> str option \<Rightarrow> (error + str) \<times> world" where
  "sign_firmware w input_path key_hex output_path =
     (if length key_hex \<noteq> 64 then (Inl (InvalidKeyLength (length key_hex)), w)
      else case bytes_fromhex key_hex of
        None \<Rightarrow> (Inl InvalidKeyEncoding, w)
      | Some key \<Rightarrow>
          (case read_file input_path w of
             (Inl e, w1) \<Rightarrow> (Inl e, w1)
           | (Inr firmware, w1) \<Rightarrow>
               (let w2 = emit (Print_size (length firmware)) w1;
                    signature = hmac_sha256 key firmware;
                    w3 = emit (Print_signature (bytes_hex signature)) w2;
                    out = resolve_output input_path output_path
                in case open_wb out w3 of
                     (Inl e, w4) \<Rightarrow> (Inl e, w4)
                   | (Inr _, w4) \<Rightarrow>
                       (let w5 = write_file out firmware w4;
                            w6 = write_file out signature w5;
                            total_size = length firmware + length signature;
                            w7 = emit (Print_signed out total_size) w6
                        in (Inr out, w7)))))"

text \<open>Lines 59 to 62: 32 bytes of \<open>os.urandom\<close>, in hexadecimal.\<close>

definition generate_key :: "world \<Rightarrow> (error + str) \<times> world" where
  "generate_key w =
     (case os_urandom 32 w of
        (Inl e, w') \<Rightarrow> (Inl e, w')
      | (Inr key, w') \<Rightarrow> (Inr (bytes_hex key), w'))"

text \<open>
  The signed envelope of a run: the content of the output file after a run that
  returned, \<open>None\<close> after a run that raised.
\<close>

definition envelope :: "world \<Rightarrow> str \<Rightarrow> str \<Rightarrow> str option \<Rightarrow> bytes option" where
  "envelope w input_path key_hex output_path =
     (case sign_firmware w input_path key_hex output_path of
        (Inl e, w') \<Rightarrow> None
      | (Inr out, w') \<Rightarrow> files w' out)"

section \<open>Character classes of key strings\<close>

text \<open>
  The hexadecimal digits \<open>0-9\<close>, \<open>a-f\<close>, \<open>A-F\<close>, the lowercase ones among them, and
  \<open>str.lower\<close> on ASCII letters. A key error is one of the two errors of key validation.
\<close>

definition is_hexdigit :: "nat \<Rightarrow> bool" where
  "is_hexdigit c \<longleftrightarrow> (48 \<le> c \<and> c \<le> 57) \<or> (97 \<le> c \<and> c \<le> 102) \<or> (65 \<le> c \<and> c \<le> 70)"

definition is_lower_hexdigit :: "nat \<Rightarrow> bool" where
  "is_lower_hexdigit c \<longleftrightarrow> (48 \<le> c \<and> c \<le> 57) \<or> (97 \<le> c \<and> c \<le> 102)"


fun is_key_error :: "error \<Rightarrow> bool" where
  "is_key_error (InvalidKeyLength n) = True"
| "is_key_error InvalidKeyEncoding = True"
| "is_key_error e = False"

section \<open>The verifier\<close>

text \<open>
  Modelled from the spec: the operation \<open>verify\<close> of section 4.3, which the repository
  does not implement. The key is validated as \<open>sign_firmware\<close> validates it, an envelope
  shorter than 32 bytes is refused, the envelope is split 32 bytes before its end, the
  tag of the front part is recomputed and compared with the received one. The comparison
  is modelled by its result; how long it takes is outside the model.
\<close>

definition verify :: "bytes \<Rightarrow> str \<Rightarrow> error + bytes" where
  "verify env key_hex =
     (if length key_hex \<noteq> 64 then Inl (InvalidKeyLength (length key_hex))
      else case bytes_fromhex key_hex of
        None \<Rightarrow> Inl InvalidKeyEncoding
      | Some key \<Rightarrow>
          if length env < 32 then Inl EnvelopeTooShort
          else
            (let candidate_payload = take (length env - 32) env;
                 received_tag = drop (length env - 32) env;
                 expected_tag = hmac_sha256 key candidate_payload
             in if expected_tag = received_tag then Inr candidate_payload
                else Inl SignatureInvalid))"

section \<open>Sample inputs\<close>

text \<open>
  A world with one firmware file where every path can be written, and a second one that
  differs from it in everything but the firmware: the file's name, the random source,
  the console trace. The keys: 32 times \<open>00\<close>; 31 times \<open>00\<close> followed by two spaces;
  a space, 31 times \<open>ab\<close> and a space; 32 times \<open>AB\<close>.
\<close>

definition bench_world :: "bytes \<Rightarrow> world" where
  "bench_world firmware =
     \<lparr>files = [str_of ''firmware.bin'' \<mapsto> firmware], writable = (\<lambda>p. True),
      entropy_ok = True, entropy = (\<lambda>i. 0), drawn = 0, trace = []\<rparr>"

definition other_world :: "bytes \<Rightarrow> world" where
  "other_world firmware =
     \<lparr>files = [str_of ''build/fw.img'' \<mapsto> firmware], writable = (\<lambda>p. True),
      entropy_ok = False, entropy = (\<lambda>i. 255), drawn = 7, trace = [Print_size 3]\<rparr>"

definition DeskBuddyFW :: bytes where
  "DeskBuddyFW = map of_nat (str_of ''DeskBuddyFW'')"

definition zero_key_hex :: str where
  "zero_key_hex = concat (replicate 32 (str_of ''00''))"

definition short_key_hex :: str where
  "short_key_hex = concat (replicate 31 (str_of ''00'')) @ str_of ''  ''"

definition spaced_key_hex :: str where
  "spaced_key_hex = [32] @ concat (replicate 31 (str_of ''ab'')) @ [32]"


section \<open>Digests have 32 bytes\<close>


lemma length_compress: "length (compress hs block) = length hs"
  by (cases "(hs, block)" rule: compress.cases) (simp_all split: prod.splits)

lemma length_foldl_compress: "length (foldl compress hs bs) = length hs"
  by (induction bs arbitrary: hs) (simp_all add: length_compress)

lemma length_concat_bytes_of_u32: "length (concat (map bytes_of_u32 ws)) = 4 * length ws"
  by (induction ws) (simp_all add: bytes_of_u32_def)

lemma length_sha256: "length (sha256 m) = 32"
  by (simp add: sha256_def length_concat_bytes_of_u32 length_foldl_compress H0_def)

lemma length_hmac_sha256: "length (hmac_sha256 key msg) = 32"
  by (simp add: hmac_sha256_def Let_def length_sha256)


section \<open>Decoding and encoding keys\<close>


lemma digit_value_hexdigit: "digit_value c < 16 \<longleftrightarrow> is_hexdigit c"
  by (auto simp: digit_value_def is_hexdigit_def)



lemma space_no_digit: "Py_ISSPACE c \<Longrightarrow> digit_value c = 37"
  by (auto simp: Py_ISSPACE_def digit_value_def)

lemma fromhex_pairs_count:
  "fromhex_pairs s = Some key \<Longrightarrow> 2 * length key + length (filter Py_ISSPACE s) = length s"
  by (induction s arbitrary: key rule: fromhex_pairs.induct)
     (auto split: if_splits dest: space_no_digit)

lemma fromhex_pairs_chars:
  "fromhex_pairs s = Some key \<Longrightarrow> \<forall>c\<in>set s. is_hexdigit c \<or> Py_ISSPACE c"
  by (induction s arbitrary: key rule: fromhex_pairs.induct)
     (auto split: if_splits simp: digit_value_hexdigit not_le)







lemma hex_digit_lower: "n < 16 \<Longrightarrow> is_lower_hexdigit (hex_digit n)"
  by (auto simp: hex_digit_def is_lower_hexdigit_def)

lemma digit_value_hex_digit: "n < 16 \<Longrightarrow> digit_value (hex_digit n) = n"
  by (auto simp: hex_digit_def digit_value_def)

lemma hex_digit_not_space: "n < 16 \<Longrightarrow> \<not> Py_ISSPACE (hex_digit n)"
  by (auto simp: hex_digit_def Py_ISSPACE_def)

lemma unat_byte_div: "unat (b :: byte) div 16 < 16"
  using unsigned_less [of b, where ?'a = nat] by simp

lemma byte_nibbles: "(of_nat (16 * (unat b div 16) + unat b mod 16) :: byte) = b"
  by simp

lemma fromhex_pairs_hex: "fromhex_pairs (bytes_hex bs) = Some bs"
  by (induction bs)
     (simp_all add: bytes_hex_def hex_digit_not_space digit_value_hex_digit unat_byte_div not_le)

lemma length_bytes_hex: "length (bytes_hex bs) = 2 * length bs"
  by (induction bs) (simp_all add: bytes_hex_def)

lemma bytes_hex_chars: "\<forall>c\<in>set (bytes_hex bs). is_lower_hexdigit c"
  by (induction bs) (simp_all add: bytes_hex_def hex_digit_lower unat_byte_div)

lemma lower_hexdigit_ascii: "is_lower_hexdigit c \<Longrightarrow> c < 128"
  by (auto simp: is_lower_hexdigit_def)

lemma bytes_hex_ascii: "\<not> list_ex (\<lambda>c. 128 \<le> c) (bytes_hex bs)"
  using bytes_hex_chars [of bs] lower_hexdigit_ascii by (fastforce simp: list_ex_iff)

lemma bytes_fromhex_hex: "bytes_fromhex (bytes_hex bs) = Some bs"
  by (simp add: bytes_fromhex_def fromhex_pairs_hex bytes_hex_ascii)

lemma fromhex_pairs_reject:
  "c \<in> set s \<Longrightarrow> \<not> is_hexdigit c \<Longrightarrow> \<not> Py_ISSPACE c \<Longrightarrow> fromhex_pairs s = None"
  using fromhex_pairs_chars [of s] by (cases "fromhex_pairs s") auto


section \<open>What a run of \<open>sign_firmware\<close> does\<close>

lemma sign_firmware_success:
  assumes "length key_hex = 64" and "bytes_fromhex key_hex = Some key"
    and "files w input_path = Some firmware"
    and "writable w (resolve_output input_path output_path)"
  shows "sign_firmware w input_path key_hex output_path =
    (Inr (resolve_output input_path output_path),
     w\<lparr>files := (files w)(resolve_output input_path output_path \<mapsto>
                   firmware @ hmac_sha256 key firmware),
       trace := trace w @
         [Read_file input_path,
          Print_size (length firmware),
          Print_signature (bytes_hex (hmac_sha256 key firmware)),
          Open_write (resolve_output input_path output_path),
          Write_file (resolve_output input_path output_path) firmware,
          Write_file (resolve_output input_path output_path) (hmac_sha256 key firmware),
          Print_signed (resolve_output input_path output_path)
            (length firmware + length (hmac_sha256 key firmware))]\<rparr>)"
  using assms
  by (simp add: sign_firmware_def read_file_def open_wb_def write_file_def emit_def Let_def)

lemma sign_firmware_returns:
  assumes "sign_firmware w input_path key_hex output_path = (Inr out, w')"
  shows "length key_hex = 64 \<and> out = resolve_output input_path output_path \<and> writable w out \<and>
    (\<exists>key firmware. bytes_fromhex key_hex = Some key \<and> files w input_path = Some firmware)"
  using assms
  by (auto simp: sign_firmware_def read_file_def open_wb_def write_file_def emit_def Let_def
      split: if_splits option.splits prod.splits sum.splits)


lemma failed_run_writes_nothing:
  "sign_firmware w input_path key_hex output_path = (Inl e, w') \<Longrightarrow> files w' = files w"
  by (auto simp: sign_firmware_def read_file_def open_wb_def emit_def Let_def
      split: if_splits option.splits prod.splits sum.splits)

section \<open>Evaluating SHA-256 and HMAC on the sample input\<close>



lemma compress_ipad:
  "compress H0
     [0x36, 0x36, 0x36, 0x36, 0x36, 0x36, 0x36, 0x36, 0x36, 0x36, 0x36, 0x36, 0x36, 0x36,
     0x36, 0x36, 0x36, 0x36, 0x36, 0x36, 0x36, 0x36, 0x36, 0x36, 0x36, 0x36, 0x36, 0x36,
     0x36, 0x36, 0x36, 0x36, 0x36, 0x36, 0x36, 0x36, 0x36, 0x36, 0x36, 0x36, 0x36, 0x36,
     0x36, 0x36, 0x36, 0x36, 0x36, 0x36, 0x36, 0x36, 0x36, 0x36, 0x36, 0x36, 0x36, 0x36,
     0x36, 0x36, 0x36, 0x36, 0x36, 0x36, 0x36, 0x36] =
     [0xf454dead, 0x9725214f, 0x90daf2a0, 0xdf1228ea, 0x64e5750f, 0xa3924181, 0x824a932b,
     0xf8e04e32]"
  by code_simp

lemma compress_inner:
  "compress [0xf454dead, 0x9725214f, 0x90daf2a0, 0xdf1228ea, 0x64e5750f, 0xa3924181, 0x824a932b,
     0xf8e04e32]
     [0x44, 0x65, 0x73, 0x6b, 0x42, 0x75, 0x64, 0x64, 0x79, 0x46, 0x57, 0x80, 0x00, 0x00,
     0x00, 0x00, 0x00, 0x00, 0x00, 0x00, 0x00, 0x00, 0x00, 0x00, 0x00, 0x00, 0x00, 0x00,
     0x00, 0x00, 0x00, 0x00, 0x00, 0x00, 0x00, 0x00, 0x00, 0x00, 0x00, 0x00, 0x00, 0x00,
     0x00, 0x00, 0x00, 0x00, 0x00, 0x00, 0x00, 0x00, 0x00, 0x00, 0x00, 0x00, 0x00, 0x00,
     0x00, 0x00, 0x00, 0x00, 0x00, 0x00, 0x02, 0x58] =
     [0x480577a0, 0xf67bbfd9, 0xaa11fa53, 0x2496c54f, 0xf31c3400, 0x9e5676d1, 0x81cd890c,
     0x297f3575]"
  by code_simp

lemma compress_opad:
  "compress H0
     [0x5c, 0x5c, 0x5c, 0x5c, 0x5c, 0x5c, 0x5c, 0x5c, 0x5c, 0x5c, 0x5c, 0x5c, 0x5c, 0x5c,
     0x5c, 0x5c, 0x5c, 0x5c, 0x5c, 0x5c, 0x5c, 0x5c, 0x5c, 0x5c, 0x5c, 0x5c, 0x5c, 0x5c,
     0x5c, 0x5c, 0x5c, 0x5c, 0x5c, 0x5c, 0x5c, 0x5c, 0x5c, 0x5c, 0x5c, 0x5c, 0x5c, 0x5c,
     0x5c, 0x5c, 0x5c, 0x5c, 0x5c, 0x5c, 0x5c, 0x5c, 0x5c, 0x5c, 0x5c, 0x5c, 0x5c, 0x5c,
     0x5c, 0x5c, 0x5c, 0x5c, 0x5c, 0x5c, 0x5c, 0x5c] =
     [0xd385480f, 0x7abb6477, 0x37c9c538, 0x5dd82467, 0x8e043a72, 0x753434b0, 0xdeb82818,
     0x361d45a6]"
  by code_simp

lemma compress_outer:
  "compress [0xd385480f, 0x7abb6477, 0x37c9c538, 0x5dd82467, 0x8e043a72, 0x753434b0, 0xdeb82818,
     0x361d45a6]
     [0x48, 0x05, 0x77, 0xa0, 0xf6, 0x7b, 0xbf, 0xd9, 0xaa, 0x11, 0xfa, 0x53, 0x24, 0x96,
     0xc5, 0x4f, 0xf3, 0x1c, 0x34, 0x00, 0x9e, 0x56, 0x76, 0xd1, 0x81, 0xcd, 0x89, 0x0c,
     0x29, 0x7f, 0x35, 0x75, 0x80, 0x00, 0x00, 0x00, 0x00, 0x00, 0x00, 0x00, 0x00, 0x00,
     0x00, 0x00, 0x00, 0x00, 0x00, 0x00, 0x00, 0x00, 0x00, 0x00, 0x00, 0x00, 0x00, 0x00,
     0x00, 0x00, 0x00, 0x00, 0x00, 0x00, 0x03, 0x00] =
     [0xfef82c87, 0x9f38262c, 0x92b6676a, 0xc6fe621d, 0xd9578b6f, 0x7715864a, 0x15486c22,
     0x2d997cba]"
  by code_simp


lemma blocks_short: "length bs < 64 \<Longrightarrow> blocks bs = []"
  by (simp add: blocks.simps)

lemma blocks_long: "64 \<le> length bs \<Longrightarrow> blocks bs = take 64 bs # blocks (drop 64 bs)"
  by (subst blocks.simps) simp

lemma replicate_numeral: "replicate (numeral k) x = x # replicate (pred_numeral k) x"
  by (simp add: numeral_eq_Suc)

lemmas sha256_eval = sha256_def pad_def be64_def bytes_of_u32_def blocks_short blocks_long
  replicate_numeral

lemma sha256_inner:
  "sha256 [0x36, 0x36, 0x36, 0x36, 0x36, 0x36, 0x36, 0x36, 0x36, 0x36, 0x36, 0x36, 0x36, 0x36,
     0x36, 0x36, 0x36, 0x36, 0x36, 0x36, 0x36, 0x36, 0x36, 0x36, 0x36, 0x36, 0x36, 0x36,
     0x36, 0x36, 0x36, 0x36, 0x36, 0x36, 0x36, 0x36, 0x36, 0x36, 0x36, 0x36, 0x36, 0x36,
     0x36, 0x36, 0x36, 0x36, 0x36, 0x36, 0x36, 0x36, 0x36, 0x36, 0x36, 0x36, 0x36, 0x36,
     0x36, 0x36, 0x36, 0x36, 0x36, 0x36, 0x36, 0x36, 0x44, 0x65, 0x73, 0x6b, 0x42, 0x75,
     0x64, 0x64, 0x79, 0x46, 0x57] =
     [0x48, 0x05, 0x77, 0xa0, 0xf6, 0x7b, 0xbf, 0xd9, 0xaa, 0x11, 0xfa, 0x53, 0x24, 0x96,
     0xc5, 0x4f, 0xf3, 0x1c, 0x34, 0x00, 0x9e, 0x56, 0x76, 0xd1, 0x81, 0xcd, 0x89, 0x0c,
     0x29, 0x7f, 0x35, 0x75]"
  by (simp add: sha256_eval compress_ipad compress_inner del: compress.simps)

lemma sha256_outer:
  "sha256 [0x5c, 0x5c, 0x5c, 0x5c, 0x5c, 0x5c, 0x5c, 0x5c, 0x5c, 0x5c, 0x5c, 0x5c, 0x5c, 0x5c,
     0x5c, 0x5c, 0x5c, 0x5c, 0x5c, 0x5c, 0x5c, 0x5c, 0x5c, 0x5c, 0x5c, 0x5c, 0x5c, 0x5c,
     0x5c, 0x5c, 0x5c, 0x5c, 0x5c, 0x5c, 0x5c, 0x5c, 0x5c, 0x5c, 0x5c, 0x5c, 0x5c, 0x5c,
     0x5c, 0x5c, 0x5c, 0x5c, 0x5c, 0x5c, 0x5c, 0x5c, 0x5c, 0x5c, 0x5c, 0x5c, 0x5c, 0x5c,
     0x5c, 0x5c, 0x5c, 0x5c, 0x5c, 0x5c, 0x5c, 0x5c, 0x48, 0x05, 0x77, 0xa0, 0xf6, 0x7b,
     0xbf, 0xd9, 0xaa, 0x11, 0xfa, 0x53, 0x24, 0x96, 0xc5, 0x4f, 0xf3, 0x1c, 0x34, 0x00,
     0x9e, 0x56, 0x76, 0xd1, 0x81, 0xcd, 0x89, 0x0c, 0x29, 0x7f, 0x35, 0x75] =
     [0xfe, 0xf8, 0x2c, 0x87, 0x9f, 0x38, 0x26, 0x2c, 0x92, 0xb6, 0x67, 0x6a, 0xc6, 0xfe,
     0x62, 0x1d, 0xd9, 0x57, 0x8b, 0x6f, 0x77, 0x15, 0x86, 0x4a, 0x15, 0x48, 0x6c, 0x22,
     0x2d, 0x99, 0x7c, 0xba]"
  by (simp add: sha256_eval compress_opad compress_outer del: compress.simps)

lemma zero_key: "bytes_fromhex zero_key_hex = Some (replicate 32 0)"
  by (simp add: zero_key_hex_def str_of_def bytes_fromhex_def Py_ISSPACE_def digit_value_def
      replicate_numeral)

lemma hmac_vector:
  "hmac_sha256 (replicate 32 0) [0x44, 0x65, 0x73, 0x6b, 0x42, 0x75, 0x64, 0x64, 0x79, 0x46, 0x57] =
     [0xfe, 0xf8, 0x2c, 0x87, 0x9f, 0x38, 0x26, 0x2c, 0x92, 0xb6, 0x67, 0x6a, 0xc6, 0xfe,
     0x62, 0x1d, 0xd9, 0x57, 0x8b, 0x6f, 0x77, 0x15, 0x86, 0x4a, 0x15, 0x48, 0x6c, 0x22,
     0x2d, 0x99, 0x7c, 0xba]"
  by (simp add: hmac_sha256_def replicate_numeral sha256_inner sha256_outer)

lemma DeskBuddyFW_bytes: "DeskBuddyFW = [0x44, 0x65, 0x73, 0x6b, 0x42, 0x75, 0x64, 0x64, 0x79, 0x46, 0x57]"
  by (simp add: DeskBuddyFW_def str_of_def)

lemma default_name: "resolve_output (str_of ''firmware.bin'') None = str_of ''firmware_signed.bin''"
  by (simp add: resolve_output_def splitext_def str_of_def Let_def)


section \<open>The model against the standards' examples\<close>

text \<open>
  The one-block example of FIPS 180-4, the digest of \<open>abc\<close>, and test case 2 of
  RFC 4231, the HMAC-SHA256 of \<open>what do ya want for nothing?\<close> under the key
  \<open>Jefe\<close>. Each compression is evaluated with the code equations, the rest with the
  simplifier.
\<close>

lemma compress_abc:
  "compress H0
     [0x61, 0x62, 0x63, 0x80, 0x00, 0x00, 0x00, 0x00, 0x00, 0x00, 0x00, 0x00, 0x00, 0x00,
      0x00, 0x00, 0x00, 0x00, 0x00, 0x00, 0x00, 0x00, 0x00, 0x00, 0x00, 0x00, 0x00, 0x00,
      0x00, 0x00, 0x00, 0x00, 0x00, 0x00, 0x00, 0x00, 0x00, 0x00, 0x00, 0x00, 0x00, 0x00,
      0x00, 0x00, 0x00, 0x00, 0x00, 0x00, 0x00, 0x00, 0x00, 0x00, 0x00, 0x00, 0x00, 0x00,
      0x00, 0x00, 0x00, 0x00, 0x00, 0x00, 0x00, 0x18] =
     [0xba7816bf, 0x8f01cfea, 0x414140de, 0x5dae2223, 0xb00361a3, 0x96177a9c, 0xb410ff61,
      0xf20015ad]"
  by code_simp

lemma sha256_abc:
  "sha256 [0x61, 0x62, 0x63] =
     [0xba, 0x78, 0x16, 0xbf, 0x8f, 0x01, 0xcf, 0xea, 0x41, 0x41, 0x40, 0xde, 0x5d, 0xae,
      0x22, 0x23, 0xb0, 0x03, 0x61, 0xa3, 0x96, 0x17, 0x7a, 0x9c, 0xb4, 0x10, 0xff, 0x61,
      0xf2, 0x00, 0x15, 0xad]"
  by (simp add: sha256_eval compress_abc del: compress.simps)

lemma compress_jefe_ipad:
  "compress H0
     [0x7c, 0x53, 0x50, 0x53, 0x36, 0x36, 0x36, 0x36, 0x36, 0x36, 0x36, 0x36, 0x36, 0x36,
      0x36, 0x36, 0x36, 0x36, 0x36, 0x36, 0x36, 0x36, 0x36, 0x36, 0x36, 0x36, 0x36, 0x36,
      0x36, 0x36, 0x36, 0x36, 0x36, 0x36, 0x36, 0x36, 0x36, 0x36, 0x36, 0x36, 0x36, 0x36,
      0x36, 0x36, 0x36, 0x36, 0x36, 0x36, 0x36, 0x36, 0x36, 0x36, 0x36, 0x36, 0x36, 0x36,
      0x36, 0x36, 0x36, 0x36, 0x36, 0x36, 0x36, 0x36] =
     [0x655da7fa, 0xcc434b37, 0x5a1cd5cb, 0x0692ee0e, 0xa47a23d3, 0x4c3af449, 0xdba21ae2,
      0x78c7500c]"
  by code_simp

lemma compress_jefe_inner:
  "compress [0x655da7fa, 0xcc434b37, 0x5a1cd5cb, 0x0692ee0e, 0xa47a23d3, 0x4c3af449, 0xdba21ae2,
      0x78c7500c]
     [0x77, 0x68, 0x61, 0x74, 0x20, 0x64, 0x6f, 0x20, 0x79, 0x61, 0x20, 0x77, 0x61, 0x6e,
      0x74, 0x20, 0x66, 0x6f, 0x72, 0x20, 0x6e, 0x6f, 0x74, 0x68, 0x69, 0x6e, 0x67, 0x3f,
      0x80, 0x00, 0x00, 0x00, 0x00, 0x00, 0x00, 0x00, 0x00, 0x00, 0x00, 0x00, 0x00, 0x00,
      0x00, 0x00, 0x00, 0x00, 0x00, 0x00, 0x00, 0x00, 0x00, 0x00, 0x00, 0x00, 0x00, 0x00,
      0x00, 0x00, 0x00, 0x00, 0x00, 0x00, 0x02, 0xe0] =
     [0xa2e48586, 0x3d27f9d8, 0x64ac8d80, 0x2432a1ed, 0x477d8c4c, 0x6f349d16, 0xd4e7e917,
      0xc629cad7]"
  by code_simp

lemma compress_jefe_opad:
  "compress H0
     [0x16, 0x39, 0x3a, 0x39, 0x5c, 0x5c, 0x5c, 0x5c, 0x5c, 0x5c, 0x5c, 0x5c, 0x5c, 0x5c,
      0x5c, 0x5c, 0x5c, 0x5c, 0x5c, 0x5c, 0x5c, 0x5c, 0x5c, 0x5c, 0x5c, 0x5c, 0x5c, 0x5c,
      0x5c, 0x5c, 0x5c, 0x5c, 0x5c, 0x5c, 0x5c, 0x5c, 0x5c, 0x5c, 0x5c, 0x5c, 0x5c, 0x5c,
      0x5c, 0x5c, 0x5c, 0x5c, 0x5c, 0x5c, 0x5c, 0x5c, 0x5c, 0x5c, 0x5c, 0x5c, 0x5c, 0x5c,
      0x5c, 0x5c, 0x5c, 0x5c, 0x5c, 0x5c, 0x5c, 0x5c] =
     [0x0eafe3d5, 0x13412e6c, 0x6a6a2feb, 0x2d375acc, 0x51a4fd47, 0x6db095e8, 0x23bfa18a,
      0x52f141d5]"
  by code_simp

lemma compress_jefe_outer:
  "compress [0x0eafe3d5, 0x13412e6c, 0x6a6a2feb, 0x2d375acc, 0x51a4fd47, 0x6db095e8, 0x23bfa18a,
      0x52f141d5]
     [0xa2, 0xe4, 0x85, 0x86, 0x3d, 0x27, 0xf9, 0xd8, 0x64, 0xac, 0x8d, 0x80, 0x24, 0x32,
      0xa1, 0xed, 0x47, 0x7d, 0x8c, 0x4c, 0x6f, 0x34, 0x9d, 0x16, 0xd4, 0xe7, 0xe9, 0x17,
      0xc6, 0x29, 0xca, 0xd7, 0x80, 0x00, 0x00, 0x00, 0x00, 0x00, 0x00, 0x00, 0x00, 0x00,
      0x00, 0x00, 0x00, 0x00, 0x00, 0x00, 0x00, 0x00, 0x00, 0x00, 0x00, 0x00, 0x00, 0x00,
      0x00, 0x00, 0x00, 0x00, 0x00, 0x00, 0x03, 0x00] =
     [0x5bdcc146, 0xbf60754e, 0x6a042426, 0x089575c7, 0x5a003f08, 0x9d273983, 0x9dec58b9,
      0x64ec3843]"
  by code_simp

lemma sha256_jefe_inner:
  "sha256
     [0x7c, 0x53, 0x50, 0x53, 0x36, 0x36, 0x36, 0x36, 0x36, 0x36, 0x36, 0x36, 0x36, 0x36,
      0x36, 0x36, 0x36, 0x36, 0x36, 0x36, 0x36, 0x36, 0x36, 0x36, 0x36, 0x36, 0x36, 0x36,
      0x36, 0x36, 0x36, 0x36, 0x36, 0x36, 0x36, 0x36, 0x36, 0x36, 0x36, 0x36, 0x36, 0x36,
      0x36, 0x36, 0x36, 0x36, 0x36, 0x36, 0x36, 0x36, 0x36, 0x36, 0x36, 0x36, 0x36, 0x36,
      0x36, 0x36, 0x36, 0x36, 0x36, 0x36, 0x36, 0x36, 0x77, 0x68, 0x61, 0x74, 0x20, 0x64,
      0x6f, 0x20, 0x79, 0x61, 0x20, 0x77, 0x61, 0x6e, 0x74, 0x20, 0x66, 0x6f, 0x72, 0x20,
      0x6e, 0x6f, 0x74, 0x68, 0x69, 0x6e, 0x67, 0x3f] =
     [0xa2, 0xe4, 0x85, 0x86, 0x3d, 0x27, 0xf9, 0xd8, 0x64, 0xac, 0x8d, 0x80, 0x24, 0x32,
      0xa1, 0xed, 0x47, 0x7d, 0x8c, 0x4c, 0x6f, 0x34, 0x9d, 0x16, 0xd4, 0xe7, 0xe9, 0x17,
      0xc6, 0x29, 0xca, 0xd7]"
  by (simp add: sha256_eval compress_jefe_ipad compress_jefe_inner del: compress.simps)

lemma sha256_jefe_outer:
  "sha256
     [0x16, 0x39, 0x3a, 0x39, 0x5c, 0x5c, 0x5c, 0x5c, 0x5c, 0x5c, 0x5c, 0x5c, 0x5c, 0x5c,
      0x5c, 0x5c, 0x5c, 0x5c, 0x5c, 0x5c, 0x5c, 0x5c, 0x5c, 0x5c, 0x5c, 0x5c, 0x5c, 0x5c,
      0x5c, 0x5c, 0x5c, 0x5c, 0x5c, 0x5c, 0x5c, 0x5c, 0x5c, 0x5c, 0x5c, 0x5c, 0x5c, 0x5c,
      0x5c, 0x5c, 0x5c, 0x5c, 0x5c, 0x5c, 0x5c, 0x5c, 0x5c, 0x5c, 0x5c, 0x5c, 0x5c, 0x5c,
      0x5c, 0x5c, 0x5c, 0x5c, 0x5c, 0x5c, 0x5c, 0x5c, 0xa2, 0xe4, 0x85, 0x86, 0x3d, 0x27,
      0xf9, 0xd8, 0x64, 0xac, 0x8d, 0x80, 0x24, 0x32, 0xa1, 0xed, 0x47, 0x7d, 0x8c, 0x4c,
      0x6f, 0x34, 0x9d, 0x16, 0xd4, 0xe7, 0xe9, 0x17, 0xc6, 0x29, 0xca, 0xd7] =
     [0x5b, 0xdc, 0xc1, 0x46, 0xbf, 0x60, 0x75, 0x4e, 0x6a, 0x04, 0x24, 0x26, 0x08, 0x95,
      0x75, 0xc7, 0x5a, 0x00, 0x3f, 0x08, 0x9d, 0x27, 0x39, 0x83, 0x9d, 0xec, 0x58, 0xb9,
      0x64, 0xec, 0x38, 0x43]"
  by (simp add: sha256_eval compress_jefe_opad compress_jefe_outer del: compress.simps)

lemma hmac_rfc4231_case2:
  "hmac_sha256 [0x4a, 0x65, 0x66, 0x65]
     [0x77, 0x68, 0x61, 0x74, 0x20, 0x64, 0x6f, 0x20, 0x79, 0x61, 0x20, 0x77, 0x61, 0x6e,
      0x74, 0x20, 0x66, 0x6f, 0x72, 0x20, 0x6e, 0x6f, 0x74, 0x68, 0x69, 0x6e, 0x67, 0x3f] =
     [0x5b, 0xdc, 0xc1, 0x46, 0xbf, 0x60, 0x75, 0x4e, 0x6a, 0x04, 0x24, 0x26, 0x08, 0x95,
      0x75, 0xc7, 0x5a, 0x00, 0x3f, 0x08, 0x9d, 0x27, 0x39, 0x83, 0x9d, 0xec, 0x58, 0xb9,
      0x64, 0xec, 0x38, 0x43]"
  by (simp add: hmac_sha256_def replicate_numeral sha256_jefe_inner sha256_jefe_outer)

section \<open>The sample inputs, evaluated\<close>

lemma bench_world_fields:
  "files (bench_world P) (str_of ''firmware.bin'') = Some P"
  "writable (bench_world P) p"
  "trace (bench_world P) = []"
  by (simp_all add: bench_world_def)

lemma other_world_fields:
  "files (other_world P) (str_of ''build/fw.img'') = Some P"
  "writable (other_world P) p"
  by (simp_all add: other_world_def)

lemma length_zero_key_hex: "length zero_key_hex = 64"
  by (simp add: zero_key_hex_def str_of_def replicate_numeral)

lemma short_key: "length short_key_hex = 64" "bytes_fromhex short_key_hex = Some (replicate 31 0)"
  by (simp_all add: short_key_hex_def str_of_def bytes_fromhex_def Py_ISSPACE_def digit_value_def
      replicate_numeral)

lemma spaced_key: "length spaced_key_hex = 64" "bytes_fromhex spaced_key_hex = Some (replicate 31 0xab)"
  by (simp_all add: spaced_key_hex_def str_of_def bytes_fromhex_def Py_ISSPACE_def digit_value_def
      replicate_numeral)


section \<open>Envelopes\<close>

lemma envelope_success:
  assumes "length key_hex = 64" and "bytes_fromhex key_hex = Some key"
    and "files w input_path = Some P"
    and "writable w (resolve_output input_path output_path)"
  shows "envelope w input_path key_hex output_path = Some (P @ hmac_sha256 key P)"
  by (simp add: envelope_def sign_firmware_success [OF assms])

lemma envelope_returns:
  assumes "envelope w input_path key_hex output_path = Some env"
  shows "length key_hex = 64 \<and> writable w (resolve_output input_path output_path) \<and>
    (\<exists>key P. bytes_fromhex key_hex = Some key \<and> files w input_path = Some P \<and>
       env = P @ hmac_sha256 key P)"
proof -
  obtain out w' where run: "sign_firmware w input_path key_hex output_path = (Inr out, w')"
    using assms by (auto simp: envelope_def split: prod.splits sum.splits)
  from sign_firmware_returns [OF run] obtain key P where
    k: "length key_hex = 64" "bytes_fromhex key_hex = Some key" and
    f: "files w input_path = Some P" and
    o: "writable w (resolve_output input_path output_path)"
    by auto
  from envelope_success [OF k f o] assms have "env = P @ hmac_sha256 key P"
    by simp
  with k f o show ?thesis by simp
qed

text \<open>How far key validation goes: whitespace shortens the key, any other foreign character is refused.\<close>

lemma accepted_key_length:
  assumes "length key_hex = 64" and "bytes_fromhex key_hex = Some key"
  shows "2 * length key + length (filter Py_ISSPACE key_hex) = 64"
  using assms fromhex_pairs_count [of key_hex key]
  by (simp add: bytes_fromhex_def split: if_splits)

lemma foreign_character_refused:
  assumes "length key_hex = 64" and "c \<in> set key_hex"
    and "\<not> is_hexdigit c" and "\<not> Py_ISSPACE c"
  shows "sign_firmware w input_path key_hex output_path = (Inl InvalidKeyEncoding, w)"
  using assms fromhex_pairs_reject [of c key_hex]
  by (simp add: sign_firmware_def bytes_fromhex_def)

section \<open>The properties of the specification\<close>

text \<open>
  C1. For every payload and every key string that passes validation, the file that
  \<open>sign_firmware\<close> writes holds the payload followed by the tag
  \<open>HMAC-SHA256(decoded key, payload)\<close>; the tag has 32 bytes, so the envelope has
  \<open>len(payload) + 32\<close> bytes, and its first \<open>len(payload)\<close> bytes are the payload.
  The payload may be empty. The run returns whenever the input file can be read and the
  output file can be opened.
\<close>

theorem sign_envelope_layout:
  assumes "length key_hex = 64" and "bytes_fromhex key_hex = Some key"
    and "files w input_path = Some P"
    and "writable w (resolve_output input_path output_path)"
  shows "\<exists>env. envelope w input_path key_hex output_path = Some env \<and>
    env = P @ hmac_sha256 key P \<and> length (hmac_sha256 key P) = 32 \<and>
    length env = length P + 32 \<and> take (length P) env = P"
  using envelope_success [OF assms] by (simp add: length_hmac_sha256)

theorem sign_envelope_layout_witness:
  "length zero_key_hex = 64 \<and> bytes_fromhex zero_key_hex = Some (replicate 32 0) \<and>
   (\<exists>env. envelope (bench_world []) (str_of ''firmware.bin'') zero_key_hex None = Some env \<and>
      env = [] @ hmac_sha256 (replicate 32 0) [] \<and> length env = 32)"
  using sign_envelope_layout [of zero_key_hex "replicate 32 0" "bench_world []"
      "str_of ''firmware.bin''" "[]" None]
  by (simp add: length_zero_key_hex zero_key bench_world_fields)

text \<open>
  C2. The claim: whenever \<open>sign_firmware\<close> accepts a key string, the decoded key has 32
  bytes. The code checks the length of the string, not of the decoded key, and
  \<open>bytes.fromhex\<close> skips ASCII whitespace: the 64-character string of 31 times \<open>00\<close>
  and two spaces is accepted, decodes to a key of 31 bytes, and that key computes the tag
  of the envelope that is written.
\<close>

theorem short_key_signs:
  "length short_key_hex = 64 \<and>
   (\<exists>key. bytes_fromhex short_key_hex = Some key \<and> length key = 31 \<and>
      envelope (bench_world DeskBuddyFW) (str_of ''firmware.bin'') short_key_hex None =
        Some (DeskBuddyFW @ hmac_sha256 key DeskBuddyFW))"
  by (simp add: short_key envelope_success [OF short_key] bench_world_fields)

text \<open>
  C3. The claim: a 64-character key string with a character that is no hexadecimal digit
  is refused with \<open>InvalidKeyEncoding\<close>. A space is no hexadecimal digit, and the
  64-character string of a space, 31 times \<open>ab\<close> and a space is accepted: the run
  returns the output path and raises nothing.
\<close>

theorem spaced_key_signs:
  "length spaced_key_hex = 64 \<and>
   list_ex (\<lambda>c. \<not> is_hexdigit c) spaced_key_hex \<and>
   fst (sign_firmware (bench_world DeskBuddyFW) (str_of ''firmware.bin'') spaced_key_hex None) =
     Inr (str_of ''firmware_signed.bin'')"
proof -
  have "list_ex (\<lambda>c. \<not> is_hexdigit c) spaced_key_hex"
    by (simp add: spaced_key_hex_def is_hexdigit_def)
  moreover have
    "fst (sign_firmware (bench_world DeskBuddyFW) (str_of ''firmware.bin'') spaced_key_hex None) =
       Inr (str_of ''firmware_signed.bin'')"
    by (simp add: sign_firmware_success [OF spaced_key] bench_world_fields default_name)
  ultimately show ?thesis
    by (simp add: spaced_key)
qed

text \<open>
  C4. A key string whose length is not 64 is refused with \<open>InvalidKeyLength\<close> carrying
  its length, whatever its characters are. Nothing has happened by then: the world is
  returned as it was, so no file was read, no key decoded, no tag computed and nothing
  written.
\<close>

theorem wrong_length_refused:
  "length key_hex \<noteq> 64 \<Longrightarrow>
   sign_firmware w input_path key_hex output_path = (Inl (InvalidKeyLength (length key_hex)), w)"
  by (simp add: sign_firmware_def)

theorem wrong_length_refused_witness:
  "sign_firmware (bench_world DeskBuddyFW) (str_of ''firmware.bin'') (replicate 63 48) None =
     (Inl (InvalidKeyLength 63), bench_world DeskBuddyFW) \<and>
   sign_firmware (bench_world DeskBuddyFW) (str_of ''firmware.bin'') (replicate 65 103) None =
     (Inl (InvalidKeyLength 65), bench_world DeskBuddyFW)"
  using wrong_length_refused [of "replicate 63 48" "bench_world DeskBuddyFW" "str_of ''firmware.bin''" None]
    wrong_length_refused [of "replicate 65 103" "bench_world DeskBuddyFW" "str_of ''firmware.bin''" None]
  by simp

text \<open>
  C5. Round trip: the envelope that \<open>sign_firmware\<close> writes for a payload under a key
  string is accepted by \<open>verify\<close> under the same key string, and \<open>verify\<close> returns the
  payload.
\<close>

theorem verify_sign_roundtrip:
  assumes "envelope w input_path key_hex output_path = Some env"
    and "files w input_path = Some P"
  shows "verify env key_hex = Inr P"
proof -
  from envelope_returns [OF assms(1)] assms(2) obtain key where
    k: "length key_hex = 64" "bytes_fromhex key_hex = Some key" and
    e: "env = P @ hmac_sha256 key P"
    by auto
  show ?thesis
    by (simp add: verify_def k e length_hmac_sha256)
qed

theorem verify_sign_roundtrip_witness:
  "envelope (bench_world DeskBuddyFW) (str_of ''firmware.bin'') zero_key_hex None =
     Some (DeskBuddyFW @ hmac_sha256 (replicate 32 0) DeskBuddyFW) \<and>
   verify (DeskBuddyFW @ hmac_sha256 (replicate 32 0) DeskBuddyFW) zero_key_hex = Inr DeskBuddyFW"
proof -
  have e: "envelope (bench_world DeskBuddyFW) (str_of ''firmware.bin'') zero_key_hex None =
     Some (DeskBuddyFW @ hmac_sha256 (replicate 32 0) DeskBuddyFW)"
    by (simp add: envelope_success [OF length_zero_key_hex zero_key] bench_world_fields)
  from verify_sign_roundtrip [OF e] e show ?thesis
    by (simp add: bench_world_fields)
qed

text \<open>
  C6. The envelope is a function of the payload and the key string alone. Two runs on
  the same payload with the same key string write the same bytes, in whatever worlds
  they run: the names of the files, the other files, the state of the random source and
  what was printed before have no part in it.
\<close>

theorem sign_deterministic:
  assumes "files w1 input1 = Some P" and "files w2 input2 = Some P"
    and "envelope w1 input1 key_hex output1 = Some env1"
    and "envelope w2 input2 key_hex output2 = Some env2"
  shows "env1 = env2"
  using envelope_returns [OF assms(3)] envelope_returns [OF assms(4)] assms(1,2)
  by auto

theorem sign_deterministic_witness:
  "envelope (bench_world DeskBuddyFW) (str_of ''firmware.bin'') zero_key_hex None =
     Some (DeskBuddyFW @ hmac_sha256 (replicate 32 0) DeskBuddyFW) \<and>
   envelope (other_world DeskBuddyFW) (str_of ''build/fw.img'') zero_key_hex
       (Some (str_of ''out.bin'')) =
     envelope (bench_world DeskBuddyFW) (str_of ''firmware.bin'') zero_key_hex None"
proof -
  have e1: "envelope (bench_world DeskBuddyFW) (str_of ''firmware.bin'') zero_key_hex None =
      Some (DeskBuddyFW @ hmac_sha256 (replicate 32 0) DeskBuddyFW)"
    by (simp add: envelope_success [OF length_zero_key_hex zero_key] bench_world_fields)
  obtain env2 where e2:
    "envelope (other_world DeskBuddyFW) (str_of ''build/fw.img'') zero_key_hex
       (Some (str_of ''out.bin'')) = Some env2"
    by (simp add: envelope_success [OF length_zero_key_hex zero_key] other_world_fields)
  from sign_deterministic [OF bench_world_fields(1) other_world_fields(1) e1 e2] e1 e2
  show ?thesis by simp
qed

text \<open>
  C7. A call of \<open>generate_key\<close> that returns gives a string of 64 lowercase hexadecimal
  digits. It decodes to the 32 bytes that \<open>os.urandom(32)\<close> handed out, the next 32 bytes
  of the system's random source, and no run of \<open>sign_firmware\<close> with it fails key
  validation.
\<close>

theorem generate_key_usable:
  assumes "generate_key w = (Inr key_hex, w')"
  shows "length key_hex = 64 \<and> (\<forall>c\<in>set key_hex. is_lower_hexdigit c) \<and>
    (\<exists>key. os_urandom 32 w = (Inr key, w') \<and>
       key = map (entropy w) [drawn w..<drawn w + 32] \<and> length key = 32 \<and>
       bytes_fromhex key_hex = Some key) \<and>
    (\<forall>w2 input_path output_path.
       case fst (sign_firmware w2 input_path key_hex output_path) of
         Inl e \<Rightarrow> \<not> is_key_error e
       | Inr out \<Rightarrow> True)"
proof -
  from assms obtain key where
    u: "os_urandom 32 w = (Inr key, w')" and h: "key_hex = bytes_hex key"
    by (auto simp: generate_key_def split: prod.splits sum.splits)
  from u have key: "key = map (entropy w) [drawn w..<drawn w + 32]"
    by (auto simp: os_urandom_def split: if_splits)
  then have len: "length key = 32"
    by simp
  have l64: "length key_hex = 64"
    by (simp add: h length_bytes_hex len)
  have dec: "bytes_fromhex key_hex = Some key"
    by (simp add: h bytes_fromhex_hex)
  have "case fst (sign_firmware w2 input_path key_hex output_path) of
          Inl e \<Rightarrow> \<not> is_key_error e | Inr out \<Rightarrow> True"
    for w2 input_path output_path
    by (simp add: sign_firmware_def l64 dec read_file_def open_wb_def Let_def
        split: option.splits)
  with u key len l64 dec bytes_hex_chars [of key] h show ?thesis
    by blast
qed

theorem generate_key_usable_witness:
  "generate_key (bench_world []) = (Inr zero_key_hex, (bench_world [])\<lparr>drawn := 32\<rparr>) \<and>
   length zero_key_hex = 64 \<and> list_all is_lower_hexdigit zero_key_hex \<and>
   bytes_fromhex zero_key_hex = Some (replicate 32 0)"
proof -
  have g: "generate_key (bench_world []) = (Inr zero_key_hex, (bench_world [])\<lparr>drawn := 32\<rparr>)"
    by (simp add: generate_key_def os_urandom_def bench_world_def zero_key_hex_def
        bytes_hex_def hex_digit_def str_of_def map_replicate_const replicate_numeral)
  from generate_key_usable [OF g] zero_key g show ?thesis
    by (simp add: list_all_iff)
qed

text \<open>
  C8. The concrete vector: with the key string of 64 zero characters and the 11 bytes
  \<open>DeskBuddyFW\<close> as payload, the last 32 bytes of the written envelope are
  \<open>fef82c87 9f38262c 92b6676a c6fe621d d9578b6f 7715864a 15486c22 2d997cba\<close>, the
  HMAC-SHA256 value of that key and message.
\<close>

theorem sign_concrete_vector:
  "map_option (\<lambda>env. drop (length env - 32) env)
     (envelope (bench_world DeskBuddyFW) (str_of ''firmware.bin'') zero_key_hex None) =
   Some [0xfe, 0xf8, 0x2c, 0x87, 0x9f, 0x38, 0x26, 0x2c, 0x92, 0xb6, 0x67, 0x6a, 0xc6, 0xfe,
         0x62, 0x1d, 0xd9, 0x57, 0x8b, 0x6f, 0x77, 0x15, 0x86, 0x4a, 0x15, 0x48, 0x6c, 0x22,
         0x2d, 0x99, 0x7c, 0xba]"
proof -
  have "envelope (bench_world DeskBuddyFW) (str_of ''firmware.bin'') zero_key_hex None =
      Some (DeskBuddyFW @ hmac_sha256 (replicate 32 0) DeskBuddyFW)"
    by (simp add: envelope_success [OF length_zero_key_hex zero_key] bench_world_fields)
  then show ?thesis
    by (simp add: DeskBuddyFW_bytes hmac_vector)
qed

text \<open>
  C9. A run that fails key validation has no effect: the world it leaves is the world it
  found, so no byte is written. A run that returns has, in this order, read the input,
  printed the size, printed the tag in full, opened the output, written the payload,
  written the tag and printed the total: the whole tag exists before the output is
  opened and before the first byte is written.
\<close>

theorem sign_effects_ordered:
  "(\<forall>e w'. sign_firmware w input_path key_hex output_path = (Inl e, w') \<longrightarrow>
      is_key_error e \<longrightarrow> w' = w) \<and>
   (\<forall>out w'. sign_firmware w input_path key_hex output_path = (Inr out, w') \<longrightarrow>
      (\<exists>key P. bytes_fromhex key_hex = Some key \<and> files w input_path = Some P \<and>
         length (bytes_hex (hmac_sha256 key P)) = 64 \<and>
         trace w' = trace w @
           [Read_file input_path,
            Print_size (length P),
            Print_signature (bytes_hex (hmac_sha256 key P)),
            Open_write out,
            Write_file out P,
            Write_file out (hmac_sha256 key P),
            Print_signed out (length P + 32)]))"
proof (intro conjI allI impI)
  fix e w'
  assume "sign_firmware w input_path key_hex output_path = (Inl e, w')" and "is_key_error e"
  then show "w' = w"
    by (auto simp: sign_firmware_def read_file_def open_wb_def Let_def
        split: if_splits option.splits prod.splits sum.splits)
next
  fix out w'
  assume run: "sign_firmware w input_path key_hex output_path = (Inr out, w')"
  from sign_firmware_returns [OF run] obtain key P where
    k: "length key_hex = 64" "bytes_fromhex key_hex = Some key" and
    f: "files w input_path = Some P" and
    o: "out = resolve_output input_path output_path" "writable w out"
    by auto
  from o have o': "writable w (resolve_output input_path output_path)"
    by simp
  from sign_firmware_success [OF k f o'] run o(1) have
    "trace w' = trace w @
       [Read_file input_path, Print_size (length P),
        Print_signature (bytes_hex (hmac_sha256 key P)), Open_write out,
        Write_file out P, Write_file out (hmac_sha256 key P),
        Print_signed out (length P + 32)]"
    by (auto simp: length_hmac_sha256)
  with k f show "\<exists>key P. bytes_fromhex key_hex = Some key \<and> files w input_path = Some P \<and>
      length (bytes_hex (hmac_sha256 key P)) = 64 \<and>
      trace w' = trace w @
        [Read_file input_path, Print_size (length P),
         Print_signature (bytes_hex (hmac_sha256 key P)), Open_write out,
         Write_file out P, Write_file out (hmac_sha256 key P),
         Print_signed out (length P + 32)]"
    by (auto simp: length_bytes_hex length_hmac_sha256)
qed

theorem sign_effects_ordered_witness:
  "sign_firmware (bench_world DeskBuddyFW) (str_of ''firmware.bin'') (replicate 64 103) None =
     (Inl InvalidKeyEncoding, bench_world DeskBuddyFW) \<and>
   is_key_error InvalidKeyEncoding \<and>
   fst (sign_firmware (bench_world DeskBuddyFW) (str_of ''firmware.bin'') zero_key_hex None) =
     Inr (str_of ''firmware_signed.bin'') \<and>
   trace (snd (sign_firmware (bench_world DeskBuddyFW) (str_of ''firmware.bin'') zero_key_hex None)) =
     [Read_file (str_of ''firmware.bin''),
      Print_size (length DeskBuddyFW),
      Print_signature (bytes_hex (hmac_sha256 (replicate 32 0) DeskBuddyFW)),
      Open_write (str_of ''firmware_signed.bin''),
      Write_file (str_of ''firmware_signed.bin'') DeskBuddyFW,
      Write_file (str_of ''firmware_signed.bin'') (hmac_sha256 (replicate 32 0) DeskBuddyFW),
      Print_signed (str_of ''firmware_signed.bin'') (length DeskBuddyFW + 32)]"
proof -
  let ?w = "bench_world DeskBuddyFW" and ?fw = "str_of ''firmware.bin''"
  obtain e w' where bad: "sign_firmware ?w ?fw (replicate 64 103) None = (Inl e, w')"
    and e: "e = InvalidKeyEncoding"
    by (simp add: sign_firmware_def bytes_fromhex_def Py_ISSPACE_def digit_value_def
        replicate_numeral)
  obtain out w'' where good: "sign_firmware ?w ?fw zero_key_hex None = (Inr out, w'')"
    and out: "out = str_of ''firmware_signed.bin''"
    by (simp add: sign_firmware_success [OF length_zero_key_hex zero_key] bench_world_fields
        default_name)
  from sign_effects_ordered [of ?w ?fw "replicate 64 103" None] bad e have "w' = ?w"
    by simp
  moreover from sign_effects_ordered [of ?w ?fw zero_key_hex None] good
  have "trace w'' = trace ?w @
      [Read_file ?fw, Print_size (length DeskBuddyFW),
       Print_signature (bytes_hex (hmac_sha256 (replicate 32 0) DeskBuddyFW)), Open_write out,
       Write_file out DeskBuddyFW, Write_file out (hmac_sha256 (replicate 32 0) DeskBuddyFW),
       Print_signed out (length DeskBuddyFW + 32)]"
    by (auto simp: zero_key bench_world_fields)
  ultimately show ?thesis
    using bad e good out by (simp add: bench_world_fields)
qed



end
